theory Spec2Isabelle
  imports Complex_Main "HOL-Library.AList"
begin

section \<open>Python values, exceptions and the library\<close>

text \<open>
  The exceptions that the modelled code can raise. \<open>CacheError op key reason\<close> and
  \<open>UnexpectedError\<close> are the repository's own \<open>PokemonCardGeneratorError\<close> subclasses
  (\<open>src/utils/error_handler.py\<close>, the second one is the error built by \<open>handle_errors\<close>
  with code \<open>UNEXPECTED_ERROR\<close>); the others are exceptions of Python and its libraries.
\<close>

datatype py_error =
    ZeroDivisionError
  | TypeError
  | ValueError
  | KeyError
  | OSError
  | JSONDecodeError
  | ValidationError
  | CacheError string string py_error
  | UnexpectedError py_error

text \<open>
  The payloads handed to the caches (\<open>data: Any\<close>). \<open>PObj s\<close> stands for any object that
  \<open>json\<close> cannot serialise by itself, \<open>s\<close> being its \<open>str()\<close>: the dictionaries produced by
  \<open>model_dump()\<close> in \<open>src/api/pokemon_api.py\<close> hold such objects (URLs, timestamps).
  Floats, tuples and dictionaries with keys other than strings are outside the model.
  A dictionary is an association list in insertion order.
\<close>

datatype pyval =
    PNone
  | PBool bool
  | PInt int
  | PStr string
  | PList "pyval list"
  | PDict "(string \<times> pyval) list"
  | PObj string

text \<open>
  The content of a JSON document, which is also the shape of the Python value
  \<open>json.load\<close> returns for it.
\<close>

datatype json =
    JNull
  | JBool bool
  | JInt int
  | JStr string
  | JList "json list"
  | JDict "(string \<times> json) list"


text \<open>The Python value that \<open>json.load\<close> builds.\<close>

primrec of_json :: "json \<Rightarrow> pyval" where
  "of_json JNull = PNone"
| "of_json (JBool b) = PBool b"
| "of_json (JInt i) = PInt i"
| "of_json (JStr s) = PStr s"
| "of_json (JList xs) = PList (map of_json xs)"
| "of_json (JDict kvs) = PDict (map (map_prod id of_json) kvs)"


text \<open>
  Python's truth value, as used by \<open>or\<close> and \<open>if\<close>. An object is true unless its class says
  otherwise, which none of the classes cached by the repository does.
\<close>

fun py_truthy :: "pyval \<Rightarrow> bool" where
  "py_truthy PNone = False"
| "py_truthy (PBool b) = b"
| "py_truthy (PInt i) = (i \<noteq> 0)"
| "py_truthy (PStr s) = (s \<noteq> [])"
| "py_truthy (PList xs) = (xs \<noteq> [])"
| "py_truthy (PDict kvs) = (kvs \<noteq> [])"
| "py_truthy (PObj s) = True"

fun json_truthy :: "json \<Rightarrow> bool" where
  "json_truthy JNull = False"
| "json_truthy (JBool b) = b"
| "json_truthy (JInt i) = (i \<noteq> 0)"
| "json_truthy (JStr s) = (s \<noteq> [])"
| "json_truthy (JList xs) = (xs \<noteq> [])"
| "json_truthy (JDict kvs) = (kvs \<noteq> [])"

text \<open>
  A \<open>datetime\<close> is a count of microseconds, \<open>timedelta(hours=h)\<close> is \<open>hours h\<close>. The
  finite range of Python's \<open>datetime\<close> (years 1 to 9999) is outside the model: sums of
  timestamps are exact.
\<close>

type_synonym datetime = int

definition hours :: "int \<Rightarrow> int" where
  "hours h = h * 3600000000"

text \<open>
  What \<open>datetime.fromisoformat\<close> does with a string: it raises \<open>ValueError\<close>, or returns
  a timestamp that carries a UTC offset (comparing it with \<open>datetime.now()\<close> raises
  \<open>TypeError\<close>) or a naive one.
\<close>

datatype iso_parse = Invalid | Aware | Naive datetime

text \<open>
  The library functions the caches call, as parameters of the model:
  \<^item> \<open>validate_data\<close>: pydantic's validation of the field
    \<open>data: Union[dict, list, str, int, float]\<close> when a \<open>CacheEntry\<close> is built; \<open>None\<close> when
    it raises \<open>ValidationError\<close>, otherwise the value that the entry holds;
  \<^item> \<open>md5_hexdigest\<close>: \<open>hashlib.md5(key.encode()).hexdigest()\<close>;
  \<^item> \<open>isoformat\<close> and \<open>fromisoformat\<close> of \<open>datetime\<close>;
  \<^item> \<open>dumps_size\<close>: the number of bytes \<open>json.dump\<close> writes for a document.
\<close>

record library =
  validate_data :: "pyval \<Rightarrow> pyval option"
  md5_hexdigest :: "string \<Rightarrow> string"
  isoformat :: "datetime \<Rightarrow> string"
  fromisoformat :: "string \<Rightarrow> iso_parse"
  dumps_size :: "json \<Rightarrow> nat"

text \<open>
  The readings of \<open>datetime.now()\<close> during one operation, in the order of the calls. None
  of the modelled operations reads the clock more than twice.
\<close>

record now_calls =
  now_1st :: datetime
  now_2nd :: datetime

text \<open>\<open>str(i)\<close> for an integer, as \<open>str.format\<close> writes it.\<close>

fun digits_of :: "nat \<Rightarrow> string" where
  "digits_of n =
     (if n < 10 then [char_of (48 + n)]
      else digits_of (n div 10) @ [char_of (48 + n mod 10)])"

declare digits_of.simps [simp del]

definition py_str_int :: "int \<Rightarrow> string" where
  "py_str_int i = (if i < 0 then CHR ''-'' # digits_of (nat (- i)) else digits_of (nat i))"

section \<open>Cache entries (\<open>src/models.py\<close>)\<close>

record CacheEntry =
  key :: string
  data :: pyval
  created_at :: datetime
  expires_at :: "datetime option"
  access_count :: int
  last_accessed :: "datetime option"

definition is_expired :: "CacheEntry \<Rightarrow> datetime \<Rightarrow> bool" where
  "is_expired self now =
     (case expires_at self of None \<Rightarrow> False | Some t \<Rightarrow> now > t)"

definition mark_accessed :: "CacheEntry \<Rightarrow> datetime \<Rightarrow> CacheEntry" where
  "mark_accessed self now =
     self\<lparr>access_count := access_count self + 1, last_accessed := Some now\<rparr>"

section \<open>Memory tier (\<open>MemoryCache\<close> in \<open>src/utils/cache_manager.py\<close>)\<close>

text \<open>\<open>_cache\<close> is a Python dictionary: an association list in insertion order.\<close>

record MemoryCache =
  cache :: "(string \<times> CacheEntry) list"
  max_size :: int
  default_ttl_hours :: int

definition MemoryCache_init :: "int \<Rightarrow> int \<Rightarrow> MemoryCache" where
  "MemoryCache_init m ttl = \<lparr>cache = [], max_size = m, default_ttl_hours = ttl\<rparr>"

text \<open>
  \<open>get\<close> returns Python's \<open>None\<close> (\<open>PNone\<close>) for an absent or expired key. The first clock
  reading is the one of \<open>is_expired\<close>, the second the one of \<open>mark_accessed\<close>. The entry is
  mutated in place, so it keeps its position in the dictionary.
\<close>

definition MemoryCache_get ::
  "MemoryCache \<Rightarrow> string \<Rightarrow> 'a now_calls_scheme \<Rightarrow> pyval \<times> MemoryCache" where
  "MemoryCache_get self k clock =
     (case map_of (cache self) k of
        None \<Rightarrow> (PNone, self)
      | Some entry \<Rightarrow>
          if is_expired entry (now_1st clock)
          then (PNone, self\<lparr>cache := AList.delete k (cache self)\<rparr>)
          else (data entry,
                self\<lparr>cache := AList.update k (mark_accessed entry (now_2nd clock)) (cache self)\<rparr>))"

text \<open>
  The key of \<open>_evict_lru\<close>: \<open>last_accessed or created_at\<close> (a \<open>datetime\<close> is always true, so
  \<open>or\<close> falls back exactly when \<open>last_accessed\<close> is \<open>None\<close>).
\<close>

definition lru_stamp :: "CacheEntry \<Rightarrow> datetime" where
  "lru_stamp e = (case last_accessed e of Some t \<Rightarrow> t | None \<Rightarrow> created_at e)"

text \<open>Python's \<open>min(xs, key=f)\<close> on a non-empty sequence: the first of the minimal items.\<close>

fun py_min :: "('a \<Rightarrow> int) \<Rightarrow> 'a \<Rightarrow> 'a list \<Rightarrow> 'a" where
  "py_min f best [] = best"
| "py_min f best (x # xs) = py_min f (if f x < f best then x else best) xs"

definition evict_lru :: "MemoryCache \<Rightarrow> MemoryCache" where
  "evict_lru self =
     (case cache self of
        [] \<Rightarrow> self
      | first # rest \<Rightarrow>
          let lru_key = fst (py_min (\<lambda>(k, e). lru_stamp e) first rest)
          in self\<lparr>cache := AList.delete lru_key (cache self)\<rparr>)"

text \<open>
  \<open>set\<close>: the eviction comes first and stays done when building the entry raises. The first
  clock reading is the one in \<open>expires_at\<close>, the second the \<open>created_at\<close> that the entry's
  \<open>default_factory\<close> reads. \<open>ttl_hours or self.default_ttl_hours\<close> takes the default for
  \<open>None\<close> and for \<open>0\<close>.
\<close>

definition MemoryCache_set ::
  "library \<Rightarrow> MemoryCache \<Rightarrow> string \<Rightarrow> pyval \<Rightarrow> int option \<Rightarrow> 'a now_calls_scheme
    \<Rightarrow> (py_error + unit) \<times> MemoryCache" where
  "MemoryCache_set lib self k d ttl_hours clock =
     (let self1 = (if int (length (cache self)) \<ge> max_size self then evict_lru self else self);
          ttl = (case ttl_hours of
                   None \<Rightarrow> default_ttl_hours self1
                 | Some h \<Rightarrow> if h \<noteq> 0 then h else default_ttl_hours self1);
          expires = now_1st clock + hours ttl
      in case validate_data lib d of
           None \<Rightarrow> (Inl ValidationError, self1)
         | Some d' \<Rightarrow>
             let entry = \<lparr>key = k, data = d', created_at = now_2nd clock,
                          expires_at = Some expires, access_count = 0, last_accessed = None\<rparr>
             in (Inr (), self1\<lparr>cache := AList.update k entry (cache self1)\<rparr>))"

definition MemoryCache_delete :: "MemoryCache \<Rightarrow> string \<Rightarrow> bool \<times> MemoryCache" where
  "MemoryCache_delete self k =
     (if k \<in> fst ` set (cache self)
      then (True, self\<lparr>cache := AList.delete k (cache self)\<rparr>)
      else (False, self))"

definition MemoryCache_clear :: "MemoryCache \<Rightarrow> MemoryCache" where
  "MemoryCache_clear self = self\<lparr>cache := []\<rparr>"

text \<open>A call of one of the four operations, with its arguments and clock readings.\<close>

datatype memory_op =
    OpGet string now_calls
  | OpSet string pyval "int option" now_calls
  | OpDelete string
  | OpClear

fun run_op :: "library \<Rightarrow> memory_op \<Rightarrow> MemoryCache \<Rightarrow> MemoryCache" where
  "run_op lib (OpGet k clock) self = snd (MemoryCache_get self k clock)"
| "run_op lib (OpSet k d ttl clock) self = snd (MemoryCache_set lib self k d ttl clock)"
| "run_op lib (OpDelete k) self = snd (MemoryCache_delete self k)"
| "run_op lib OpClear self = MemoryCache_clear self"

definition run_ops :: "library \<Rightarrow> memory_op list \<Rightarrow> MemoryCache \<Rightarrow> MemoryCache" where
  "run_ops lib ops self = fold (run_op lib) ops self"


section \<open>Disk tier (\<open>FileCache\<close> in \<open>src/utils/cache_manager.py\<close>)\<close>

text \<open>
  A file of \<open>api_cache_dir\<close>: what \<open>json.load\<close> does with its text (it raises, or returns a
  document), and the two fields of \<open>stat()\<close> that the cache reads.
\<close>

datatype file_content = Unparseable | Parsed json

record cache_file =
  content :: file_content
  st_mtime :: int
  st_size :: nat

text \<open>
  The state of the disk tier: the \<open>*.json\<close> files of \<open>api_cache_dir\<close> by name, in the order
  in which \<open>glob\<close> lists them, the size cap, and the errors handed to \<open>log_error\<close>.
\<close>

record FileCache =
  files :: "(string \<times> cache_file) list"
  max_size_mb :: int
  error_log :: "py_error list"

text \<open>
  What the environment decides during one operation of the disk tier: the clock readings,
  the modification time given to a file written now, and which system calls raise
  \<open>OSError\<close> (\<open>open\<close> for reading, \<open>open\<close> for writing, \<open>unlink\<close> and \<open>stat\<close>, the last two by
  file name). In \<open>get\<close> the first reading is the one compared with \<open>expires_at\<close> and the
  second the one stored as \<open>last_accessed\<close>; in \<open>set\<close> the first is the one in \<open>expires_at\<close>
  and the second is \<open>created_at\<close>.
\<close>

record io_env = now_calls +
  write_mtime :: int
  open_read_fails :: bool
  open_write_fails :: bool
  unlink_fails :: "string \<Rightarrow> bool"
  stat_fails :: "string \<Rightarrow> bool"

definition log_error :: "py_error \<Rightarrow> FileCache \<Rightarrow> FileCache" where
  "log_error e self = self\<lparr>error_log := error_log self @ [e]\<rparr>"

text \<open>
  The decorator \<open>@handle_errors(reraise=True)\<close>: an error of the repository is logged and
  raised again, any other exception is wrapped, logged and raised.
\<close>

definition handle_errors_reraise ::
  "(py_error + 'a) \<times> FileCache \<Rightarrow> (py_error + 'a) \<times> FileCache" where
  "handle_errors_reraise r =
     (case r of
        (Inr v, self) \<Rightarrow> (Inr v, self)
      | (Inl e, self) \<Rightarrow>
          (case e of
             CacheError op k reason \<Rightarrow> (Inl e, log_error e self)
           | UnexpectedError cause \<Rightarrow> (Inl e, log_error e self)
           | _ \<Rightarrow> (Inl (UnexpectedError e), log_error (UnexpectedError e) self)))"

definition get_cache_file_path :: "library \<Rightarrow> string \<Rightarrow> string" where
  "get_cache_file_path lib k = md5_hexdigest lib k @ ''.json''"

text \<open>\<open>open(path, 'w')\<close> followed by \<open>json.dump\<close>: the file is created or replaced.\<close>

definition write_file ::
  "library \<Rightarrow> 'a io_env_scheme \<Rightarrow> string \<Rightarrow> json \<Rightarrow> (string \<times> cache_file) list
    \<Rightarrow> (string \<times> cache_file) list" where
  "write_file lib env name doc fs =
     AList.update name
       \<lparr>content = Parsed doc, st_mtime = write_mtime env, st_size = dumps_size lib doc\<rparr> fs"



text \<open>
  The test \<open>'expires_at' in data and data['expires_at']\<close> and the comparison under it, for
  a document that is a dictionary: \<open>Inr True\<close> when the entry has expired.
\<close>

definition check_expiry ::
  "library \<Rightarrow> (string \<times> json) list \<Rightarrow> datetime \<Rightarrow> py_error + bool" where
  "check_expiry lib d now =
     (case map_of d ''expires_at'' of
        None \<Rightarrow> Inr False
      | Some v \<Rightarrow>
          if \<not> json_truthy v then Inr False
          else (case v of
                  JStr s \<Rightarrow>
                    (case fromisoformat lib s of
                       Invalid \<Rightarrow> Inl ValueError
                     | Aware \<Rightarrow> Inl TypeError
                     | Naive t \<Rightarrow> Inr (now > t))
                | _ \<Rightarrow> Inl TypeError))"

text \<open>\<open>data.get('access_count', 0) + 1\<close>.\<close>

definition bump_access_count :: "(string \<times> json) list \<Rightarrow> py_error + json" where
  "bump_access_count d =
     (case (case map_of d ''access_count'' of None \<Rightarrow> JInt 0 | Some v \<Rightarrow> v) of
        JInt n \<Rightarrow> Inr (JInt (n + 1))
      | JBool b \<Rightarrow> Inr (JInt ((if b then 1 else 0) + 1))
      | _ \<Rightarrow> Inl TypeError)"

text \<open>
  The \<open>try\<close> block of \<open>FileCache.get\<close>, entered when the file exists. A document that is
  not a dictionary makes one of the statements on \<open>data\<close> raise \<open>TypeError\<close> before
  anything is written. The result carries the files as the block leaves them.
\<close>

definition get_try ::
  "library \<Rightarrow> 'a io_env_scheme \<Rightarrow> (string \<times> cache_file) list \<Rightarrow> string
    \<Rightarrow> (py_error + pyval) \<times> (string \<times> cache_file) list" where
  "get_try lib env fs name =
     (if open_read_fails env then (Inl OSError, fs)
      else case map_of fs name of
        None \<Rightarrow> (Inl OSError, fs)
      | Some f \<Rightarrow>
         (case content f of
            Unparseable \<Rightarrow> (Inl JSONDecodeError, fs)
          | Parsed doc \<Rightarrow>
             (case doc of
                JDict d \<Rightarrow>
                 (case check_expiry lib d (now_1st env) of
                    Inl e \<Rightarrow> (Inl e, fs)
                  | Inr True \<Rightarrow>
                      if unlink_fails env name then (Inl OSError, fs)
                      else (Inr PNone, AList.delete name fs)
                  | Inr False \<Rightarrow>
                     (let d1 = AList.update ''last_accessed''
                                 (JStr (isoformat lib (now_2nd env))) d
                      in case bump_access_count d1 of
                           Inl e \<Rightarrow> (Inl e, fs)
                         | Inr n \<Rightarrow>
                            (let d2 = AList.update ''access_count'' n d1
                             in if open_write_fails env then (Inl OSError, fs)
                                else let fs' = write_file lib env name (JDict d2) fs
                                     in case map_of d2 ''data'' of
                                          None \<Rightarrow> (Inl KeyError, fs')
                                        | Some v \<Rightarrow> (Inr (of_json v), fs'))))
              | _ \<Rightarrow> (Inl TypeError, fs))))"

text \<open>
  \<open>FileCache.get\<close>: Python's \<open>None\<close> is \<open>PNone\<close>. The handler of the \<open>try\<close> block logs a
  \<open>CacheError\<close> and returns \<open>None\<close>.
\<close>

definition FileCache_get ::
  "library \<Rightarrow> 'a io_env_scheme \<Rightarrow> FileCache \<Rightarrow> string \<Rightarrow> (py_error + pyval) \<times> FileCache" where
  "FileCache_get lib env self k =
     handle_errors_reraise
       (let name = get_cache_file_path lib k
        in if name \<notin> fst ` set (files self) then (Inr PNone, self)
           else case get_try lib env (files self) name of
                  (Inl e, fs) \<Rightarrow> (Inr PNone, log_error (CacheError ''get'' k e) (self\<lparr>files := fs\<rparr>))
                | (Inr v, fs) \<Rightarrow> (Inr v, self\<lparr>files := fs\<rparr>))"


section \<open>Cache manager (\<open>CacheManager\<close> in \<open>src/utils/cache_manager.py\<close>)\<close>

record CacheManager =
  memory_cache :: MemoryCache
  file_cache :: FileCache

text \<open>\<open>CACHE_KEYS\<close> of \<open>config/constants.py\<close>, formatted with an integer.\<close>

definition pokemon_key :: "int \<Rightarrow> string" where
  "pokemon_key i = ''pokemon_'' @ py_str_int i"

definition species_key :: "int \<Rightarrow> string" where
  "species_key i = ''species_'' @ py_str_int i"

definition generation_key :: "int \<Rightarrow> string" where
  "generation_key i = ''generation_'' @ py_str_int i"

text \<open>
  \<open>get_pokemon_data\<close>: the clock readings of the memory \<open>get\<close>, the environment of the disk
  \<open>get\<close> and the clock readings of the memory \<open>set\<close> are three arguments.
\<close>

definition get_pokemon_data ::
  "library \<Rightarrow> CacheManager \<Rightarrow> int \<Rightarrow> now_calls \<Rightarrow> io_env \<Rightarrow> now_calls
    \<Rightarrow> (py_error + pyval) \<times> CacheManager" where
  "get_pokemon_data lib self pokemon_id clock_get env clock_set =
     (let k = pokemon_key pokemon_id;
          (d, m1) = MemoryCache_get (memory_cache self) k clock_get
      in if d \<noteq> PNone then (Inr d, self\<lparr>memory_cache := m1\<rparr>)
         else case FileCache_get lib env (file_cache self) k of
                (Inl e, f1) \<Rightarrow> (Inl e, \<lparr>memory_cache = m1, file_cache = f1\<rparr>)
              | (Inr d2, f1) \<Rightarrow>
                  if d2 \<noteq> PNone
                  then (case MemoryCache_set lib m1 k d2 None clock_set of
                          (Inl e, m2) \<Rightarrow> (Inl e, \<lparr>memory_cache = m2, file_cache = f1\<rparr>)
                        | (Inr u, m2) \<Rightarrow> (Inr d2, \<lparr>memory_cache = m2, file_cache = f1\<rparr>))
                  else (Inr PNone, \<lparr>memory_cache = m1, file_cache = f1\<rparr>))"

text \<open>
  \<open>return self.memory_cache.get(key) or self.file_cache.get(key)\<close>, the body of both
  \<open>get_species_data\<close> and \<open>get_generation_data\<close>.
\<close>

definition get_memory_or_file ::
  "library \<Rightarrow> CacheManager \<Rightarrow> string \<Rightarrow> now_calls \<Rightarrow> io_env
    \<Rightarrow> (py_error + pyval) \<times> CacheManager" where
  "get_memory_or_file lib self k clock_get env =
     (let (d, m1) = MemoryCache_get (memory_cache self) k clock_get
      in if py_truthy d then (Inr d, self\<lparr>memory_cache := m1\<rparr>)
         else case FileCache_get lib env (file_cache self) k of
                (Inl e, f1) \<Rightarrow> (Inl e, \<lparr>memory_cache = m1, file_cache = f1\<rparr>)
              | (Inr d2, f1) \<Rightarrow> (Inr d2, \<lparr>memory_cache = m1, file_cache = f1\<rparr>))"

definition get_species_data ::
  "library \<Rightarrow> CacheManager \<Rightarrow> int \<Rightarrow> now_calls \<Rightarrow> io_env
    \<Rightarrow> (py_error + pyval) \<times> CacheManager" where
  "get_species_data lib self pokemon_id clock_get env =
     get_memory_or_file lib self (species_key pokemon_id) clock_get env"

definition get_generation_data ::
  "library \<Rightarrow> CacheManager \<Rightarrow> int \<Rightarrow> now_calls \<Rightarrow> io_env
    \<Rightarrow> (py_error + pyval) \<times> CacheManager" where
  "get_generation_data lib self generation clock_get env =
     get_memory_or_file lib self (generation_key generation) clock_get env"

section \<open>Page layout (\<open>src/pdf/page_layout.py\<close>)\<close>

text \<open>
  The configuration read by \<open>PageLayoutManager.__init__\<close>. Python computes on floats;
  the model computes on rationals, so the rounding of floating-point arithmetic is outside
  the model (the default configuration holds small integers only, on which both agree).
\<close>

record PageLayoutManager =
  a4_width_mm :: rat
  a4_height_mm :: rat
  card_width_mm :: rat
  card_height_mm :: rat
  margin_mm :: rat
  card_spacing_mm :: rat

text \<open>The dictionary returned by \<open>calculate_optimal_layout\<close>, one field per key.\<close>

record layout =
  rows :: int
  cols :: int
  cards_per_page :: int
  total_pages :: int
  usable_width_mm :: rat
  usable_height_mm :: rat
  margin :: rat
  spacing :: rat
  layout_card_width_mm :: rat
  layout_card_height_mm :: rat
  horizontal_spacing_mm :: rat
  vertical_spacing_mm :: rat

text \<open>\<open>PDF_CONSTANTS\<close> and the defaults of \<open>config/settings.py\<close>.\<close>

definition default_manager :: PageLayoutManager where
  "default_manager =
     \<lparr>a4_width_mm = 210, a4_height_mm = 297, card_width_mm = 63, card_height_mm = 88,
      margin_mm = 5, card_spacing_mm = 2\<rparr>"

text \<open>\<open>reportlab.lib.units.mm\<close>: 72 points per inch, 25.4 mm per inch.\<close>

definition mm :: rat where
  "mm = 360 / 127"

text \<open>Python's \<open>x // y\<close> on floats and on ints, and \<open>int(x)\<close> (truncation towards zero).\<close>

definition float_floordiv :: "rat \<Rightarrow> rat \<Rightarrow> py_error + rat" where
  "float_floordiv x y = (if y = 0 then Inl ZeroDivisionError else Inr (of_int \<lfloor>x / y\<rfloor>))"

definition int_floordiv :: "int \<Rightarrow> int \<Rightarrow> py_error + int" where
  "int_floordiv x y = (if y = 0 then Inl ZeroDivisionError else Inr (x div y))"

definition py_int :: "rat \<Rightarrow> int" where
  "py_int x = (if 0 \<le> x then \<lfloor>x\<rfloor> else \<lceil>x\<rceil>)"

definition calculate_cards_per_row :: "PageLayoutManager \<Rightarrow> rat \<Rightarrow> py_error + int" where
  "calculate_cards_per_row self usable_width =
     (let card_plus_spacing = card_width_mm self + card_spacing_mm self in
      case float_floordiv (usable_width + card_spacing_mm self) card_plus_spacing of
        Inl e \<Rightarrow> Inl e
      | Inr q \<Rightarrow> Inr (max 1 (py_int q)))"

definition calculate_cards_per_column :: "PageLayoutManager \<Rightarrow> rat \<Rightarrow> py_error + int" where
  "calculate_cards_per_column self usable_height =
     (let card_plus_spacing = card_height_mm self + card_spacing_mm self in
      case float_floordiv (usable_height + card_spacing_mm self) card_plus_spacing of
        Inl e \<Rightarrow> Inl e
      | Inr q \<Rightarrow> Inr (max 1 (py_int q)))"

definition calculate_actual_horizontal_spacing :: "PageLayoutManager \<Rightarrow> rat \<Rightarrow> int \<Rightarrow> rat" where
  "calculate_actual_horizontal_spacing self usable_width c =
     (if c \<le> 1 then 0
      else let total_card_width = of_int c * card_width_mm self;
               remaining_space = usable_width - total_card_width;
               spacing_gaps = c - 1
           in if spacing_gaps > 0 then remaining_space / of_int spacing_gaps else 0)"

definition calculate_actual_vertical_spacing :: "PageLayoutManager \<Rightarrow> rat \<Rightarrow> int \<Rightarrow> rat" where
  "calculate_actual_vertical_spacing self usable_height r =
     (if r \<le> 1 then 0
      else let total_card_height = of_int r * card_height_mm self;
               remaining_space = usable_height - total_card_height;
               spacing_gaps = r - 1
           in if spacing_gaps > 0 then remaining_space / of_int spacing_gaps else 0)"

definition calculate_optimal_layout :: "PageLayoutManager \<Rightarrow> int \<Rightarrow> py_error + layout" where
  "calculate_optimal_layout self total_cards =
     (let usable_width = a4_width_mm self - 2 * margin_mm self;
          usable_height = a4_height_mm self - 2 * margin_mm self
      in case calculate_cards_per_row self usable_width of
           Inl e \<Rightarrow> Inl e
         | Inr c \<Rightarrow>
        (case calculate_cards_per_column self usable_height of
           Inl e \<Rightarrow> Inl e
         | Inr r \<Rightarrow>
        (let cpp = r * c in
         case int_floordiv (total_cards + cpp - 1) cpp of
           Inl e \<Rightarrow> Inl e
         | Inr pages \<Rightarrow>
        (let actual_h_spacing = calculate_actual_horizontal_spacing self usable_width c;
             actual_v_spacing = calculate_actual_vertical_spacing self usable_height r
         in Inr \<lparr>rows = r, cols = c, cards_per_page = cpp, total_pages = pages,
                 usable_width_mm = usable_width, usable_height_mm = usable_height,
                 margin = margin_mm self * mm,
                 spacing = min actual_h_spacing actual_v_spacing * mm,
                 layout_card_width_mm = card_width_mm self,
                 layout_card_height_mm = card_height_mm self,
                 horizontal_spacing_mm = actual_h_spacing,
                 vertical_spacing_mm = actual_v_spacing\<rparr>))))"


text \<open>The bare \<open>except:\<close> of \<open>validate_layout\<close> turns every exception into \<open>False\<close>.\<close>

definition validate_layout :: "PageLayoutManager \<Rightarrow> int \<Rightarrow> bool" where
  "validate_layout self total_cards =
     (case calculate_optimal_layout self total_cards of
        Inl e \<Rightarrow> False
      | Inr l \<Rightarrow> cards_per_page l > 0 \<and> total_pages l > 0)"

section \<open>A library instance for concrete runs\<close>

text \<open>
  The library record above is a parameter of the cache model. For running the model on
  concrete inputs it is instantiated with stand-ins: a validator that accepts dictionaries,
  lists, strings and integers unchanged and rejects everything else, a digest that prefixes
  the key, timestamps written as \<open>T\<close> followed by the decimal count, and a constant document
  size.
\<close>

definition is_digit :: "char \<Rightarrow> bool" where
  "is_digit c = (48 \<le> (of_char c :: nat) \<and> (of_char c :: nat) \<le> 57)"

definition sample_fromisoformat :: "string \<Rightarrow> iso_parse" where
  "sample_fromisoformat s =
     (case s of
        [] \<Rightarrow> Invalid
      | c # ds \<Rightarrow>
          if c = CHR ''T'' \<and> ds \<noteq> [] \<and> list_all is_digit ds
          then Naive (int (foldl (\<lambda>a d. 10 * a + (of_char d - 48)) 0 ds))
          else Invalid)"

definition sample_validate :: "pyval \<Rightarrow> pyval option" where
  "sample_validate v =
     (case v of
        PInt i \<Rightarrow> Some v
      | PStr s \<Rightarrow> Some v
      | PList xs \<Rightarrow> Some v
      | PDict kvs \<Rightarrow> Some v
      | _ \<Rightarrow> None)"

definition sample_library :: library where
  "sample_library =
     \<lparr>validate_data = sample_validate,
      md5_hexdigest = (\<lambda>k. ''md5-'' @ k),
      isoformat = (\<lambda>t. CHR ''T'' # py_str_int t),
      fromisoformat = sample_fromisoformat,
      dumps_size = (\<lambda>doc. 400)\<rparr>"

text \<open>
  A full memory tier of two entries: \<open>a\<close> was read at time 40, \<open>b\<close> was written at time 20
  and never read, so \<open>b\<close> is the least recently used one.
\<close>

definition sample_memory :: MemoryCache where
  "sample_memory =
     \<lparr>cache =
        [(''a'', \<lparr>key = ''a'', data = PStr ''A'', created_at = 10, expires_at = Some 5000,
                  access_count = 1, last_accessed = Some 40\<rparr>),
         (''b'', \<lparr>key = ''b'', data = PStr ''B'', created_at = 20, expires_at = Some 5000,
                  access_count = 0, last_accessed = None\<rparr>)],
      max_size = 2, default_ttl_hours = 1\<rparr>"

definition sample_clock :: now_calls where
  "sample_clock = \<lparr>now_1st = 100, now_2nd = 101\<rparr>"

text \<open>
  An environment without failing system calls, and an empty cache directory.
\<close>

definition sample_env :: "datetime \<Rightarrow> io_env" where
  "sample_env now =
     \<lparr>now_1st = now, now_2nd = now + 1, write_mtime = now + 2,
      open_read_fails = False, open_write_fails = False,
      unlink_fails = (\<lambda>name. False), stat_fails = (\<lambda>name. False)\<rparr>"





text \<open>
  A manager whose memory tier is empty and whose disk tier holds one entry in each key
  namespace, each expiring at time 5000.
\<close>

definition sample_entry_file :: "string \<Rightarrow> json \<Rightarrow> cache_file" where
  "sample_entry_file k payload =
     \<lparr>content = Parsed (JDict [(''key'', JStr k), (''data'', payload),
          (''created_at'', JStr ''T10''), (''expires_at'', JStr ''T5000''),
          (''access_count'', JInt 0), (''last_accessed'', JNull)]),
      st_mtime = 12, st_size = 400\<rparr>"

definition sample_manager :: CacheManager where
  "sample_manager =
     \<lparr>memory_cache = MemoryCache_init 1000 1,
      file_cache =
        \<lparr>files =
           [(''md5-pokemon_25.json'',
               sample_entry_file ''pokemon_25'' (JDict [(''name'', JStr ''pikachu'')])),
            (''md5-species_25.json'',
               sample_entry_file ''species_25'' (JDict [(''color'', JStr ''yellow'')])),
            (''md5-generation_1.json'',
               sample_entry_file ''generation_1'' (JDict [(''count'', JInt 151)]))],
         max_size_mb = 100, error_log = []\<rparr>\<rparr>"

section \<open>Page layout: proofs\<close>

lemma py_int_of_int: "py_int (of_int k) = k"
  by (simp add: py_int_def)


lemma cards_per_row_eq:
  "card_width_mm self + card_spacing_mm self \<noteq> 0 \<Longrightarrow>
   calculate_cards_per_row self w =
     Inr (max 1 \<lfloor>(w + card_spacing_mm self) / (card_width_mm self + card_spacing_mm self)\<rfloor>)"
  by (simp add: calculate_cards_per_row_def float_floordiv_def py_int_of_int)

lemma cards_per_column_eq:
  "card_height_mm self + card_spacing_mm self \<noteq> 0 \<Longrightarrow>
   calculate_cards_per_column self h =
     Inr (max 1 \<lfloor>(h + card_spacing_mm self) / (card_height_mm self + card_spacing_mm self)\<rfloor>)"
  by (simp add: calculate_cards_per_column_def float_floordiv_def py_int_of_int)

text \<open>Without a division by zero, the layout is this record.\<close>

lemma calculate_optimal_layout_eq:
  assumes "card_width_mm self + card_spacing_mm self \<noteq> 0"
    and "card_height_mm self + card_spacing_mm self \<noteq> 0"
  defines "uw \<equiv> a4_width_mm self - 2 * margin_mm self"
    and "uh \<equiv> a4_height_mm self - 2 * margin_mm self"
  defines "c \<equiv> max 1 \<lfloor>(uw + card_spacing_mm self) / (card_width_mm self + card_spacing_mm self)\<rfloor>"
    and "r \<equiv> max 1 \<lfloor>(uh + card_spacing_mm self) / (card_height_mm self + card_spacing_mm self)\<rfloor>"
  shows "calculate_optimal_layout self n =
     Inr \<lparr>rows = r, cols = c, cards_per_page = r * c, total_pages = (n + r * c - 1) div (r * c),
          usable_width_mm = uw, usable_height_mm = uh,
          margin = margin_mm self * mm,
          spacing = min (calculate_actual_horizontal_spacing self uw c)
                        (calculate_actual_vertical_spacing self uh r) * mm,
          layout_card_width_mm = card_width_mm self,
          layout_card_height_mm = card_height_mm self,
          horizontal_spacing_mm = calculate_actual_horizontal_spacing self uw c,
          vertical_spacing_mm = calculate_actual_vertical_spacing self uh r\<rparr>"
proof -
  have "r \<noteq> 0" and "c \<noteq> 0"
    by (simp_all add: r_def c_def)
  then have "int_floordiv (n + r * c - 1) (r * c) = Inr ((n + r * c - 1) div (r * c))"
    by (simp add: int_floordiv_def)
  then show ?thesis
    using assms(1,2)
    by (simp add: calculate_optimal_layout_def cards_per_row_eq cards_per_column_eq Let_def
        flip: uw_def uh_def c_def r_def)
qed


lemma default_cols: "\<lfloor>(202 :: rat) / 65\<rfloor> = 3"
  by (rule floor_unique) simp_all

lemma default_rows: "\<lfloor>(289 :: rat) / 90\<rfloor> = 3"
  by (rule floor_unique) simp_all











text \<open>Claim C10. \<open>validate_layout(0)\<close> is \<open>False\<close> for every configuration: where the
  layout of no cards is computed, it has at least one card per page and no page.\<close>

theorem validate_layout_zero:
  "validate_layout self 0 = False \<and>
   (card_width_mm self + card_spacing_mm self \<noteq> 0 \<and>
    card_height_mm self + card_spacing_mm self \<noteq> 0 \<longrightarrow>
      (\<exists>l. calculate_optimal_layout self 0 = Inr l \<and> cards_per_page l > 0 \<and> total_pages l = 0))"
proof -
  have zero: "(0 + r * c - 1) div (r * c) = 0" if "1 \<le> r" and "1 \<le> c" for r c :: int
  proof -
    have "0 < r * c" using that by simp
    then show ?thesis by (simp add: div_pos_pos_trivial)
  qed
  show ?thesis
  proof (cases "card_width_mm self + card_spacing_mm self \<noteq> 0 \<and>
      card_height_mm self + card_spacing_mm self \<noteq> 0")
    case True
    then have nz: "card_width_mm self + card_spacing_mm self \<noteq> 0"
      "card_height_mm self + card_spacing_mm self \<noteq> 0"
      by simp_all
    show ?thesis
      using True by (simp add: validate_layout_def calculate_optimal_layout_eq [OF nz] zero)
  next
    case False
    have "\<exists>e. calculate_optimal_layout self 0 = Inl e"
    proof (cases "card_width_mm self + card_spacing_mm self = 0")
      case True
      then show ?thesis
        by (simp add: calculate_optimal_layout_def calculate_cards_per_row_def float_floordiv_def)
    next
      case w: False
      then have "card_height_mm self + card_spacing_mm self = 0"
        using False by simp
      then show ?thesis
        using w
        by (simp add: calculate_optimal_layout_def cards_per_row_eq
            calculate_cards_per_column_def float_floordiv_def)
    qed
    then show ?thesis
      using False by (auto simp add: validate_layout_def)
  qed
qed

theorem validate_layout_zero_witness:
  "card_width_mm default_manager + card_spacing_mm default_manager \<noteq> 0 \<and>
   card_height_mm default_manager + card_spacing_mm default_manager \<noteq> 0 \<and>
   validate_layout default_manager 0 = False \<and>
   map_sum id (\<lambda>l. (cards_per_page l, total_pages l))
     (calculate_optimal_layout default_manager 0) = Inr (9, 0)"
proof -
  have h: "card_width_mm default_manager + card_spacing_mm default_manager \<noteq> 0 \<and>
      card_height_mm default_manager + card_spacing_mm default_manager \<noteq> 0"
    by (simp add: default_manager_def)
  have "map_sum id (\<lambda>l. (cards_per_page l, total_pages l))
     (calculate_optimal_layout default_manager 0) = Inr (9, 0)"
    by (simp add: calculate_optimal_layout_eq default_manager_def default_cols default_rows)
  then show ?thesis
    using h validate_layout_zero [of default_manager] by simp
qed


section \<open>Memory tier: proofs\<close>









text \<open>The keys of the dictionary stay distinct under every operation.\<close>

lemma evict_lru_distinct:
  "distinct (map fst (cache self)) \<Longrightarrow> distinct (map fst (cache (evict_lru self)))"
proof (cases "cache self")
  case Nil
  then show ?thesis by (simp add: evict_lru_def)
next
  case (Cons first rest)
  assume "distinct (map fst (cache self))"
  then have "distinct (map fst (AList.delete k (cache self)))" for k
    by (rule distinct_delete)
  then show ?thesis
    using Cons by (simp add: evict_lru_def Let_def del: delete_simps)
qed

lemma run_op_distinct:
  assumes "distinct (map fst (cache self))"
  shows "distinct (map fst (cache (run_op lib op self)))"
proof (cases op)
  case (OpGet k clock)
  then show ?thesis
    using assms
    by (auto simp add: MemoryCache_get_def distinct_delete distinct_update split: option.splits)
next
  case (OpSet k d ttl clock)
  define self1 where
    "self1 = (if int (length (cache self)) \<ge> max_size self then evict_lru self else self)"
  have d1: "distinct (map fst (cache self1))"
    using assms by (simp add: self1_def evict_lru_distinct)
  have "distinct (map fst (AList.update k e (cache self1)))" for e
    using d1 by (rule distinct_update)
  then show ?thesis
    using OpSet d1
    by (simp add: MemoryCache_set_def Let_def flip: self1_def split: option.splits)
next
  case (OpDelete k)
  then show ?thesis
    using assms by (simp add: MemoryCache_delete_def distinct_delete)
next
  case OpClear
  then show ?thesis by (simp add: MemoryCache_clear_def)
qed

lemma run_ops_distinct:
  "distinct (map fst (cache self)) \<Longrightarrow> distinct (map fst (cache (run_ops lib ops self)))"
  unfolding run_ops_def by (induction ops arbitrary: self) (simp_all add: run_op_distinct)







text \<open>
  Claim C6. \<open>MemoryCache.get\<close> on a key without entry returns \<open>None\<close> and changes
  nothing. On a key with an entry: the entry is expired exactly when its \<open>expires_at\<close> is
  a time before the clock reading; an expired entry is removed and \<open>None\<close> is returned;
  otherwise the data is returned and the entry has its \<open>access_count\<close> raised by one and
  its \<open>last_accessed\<close> set to the clock reading. The other entries stay as they are. The
  function has no exception among its results: no statement of the source can raise.
\<close>

theorem MemoryCache_get_contract:
  "(map_of (cache self) k = None \<longrightarrow> MemoryCache_get self k clock = (PNone, self)) \<and>
   (\<forall>e. map_of (cache self) k = Some e \<longrightarrow>
      (is_expired e (now_1st clock) \<longleftrightarrow> (\<exists>t. expires_at e = Some t \<and> now_1st clock > t)) \<and>
      (is_expired e (now_1st clock) \<longrightarrow>
         fst (MemoryCache_get self k clock) = PNone \<and>
         map_of (cache (snd (MemoryCache_get self k clock))) k = None) \<and>
      (\<not> is_expired e (now_1st clock) \<longrightarrow>
         fst (MemoryCache_get self k clock) = data e \<and>
         map_of (cache (snd (MemoryCache_get self k clock))) k =
           Some (e\<lparr>access_count := access_count e + 1, last_accessed := Some (now_2nd clock)\<rparr>))) \<and>
   (\<forall>k'. k' \<noteq> k \<longrightarrow>
      map_of (cache (snd (MemoryCache_get self k clock))) k' = map_of (cache self) k')"
  by (auto simp add: MemoryCache_get_def is_expired_def mark_accessed_def update_conv' delete_conv'
      split: option.splits)

theorem MemoryCache_get_contract_witness:
  "map_of (cache sample_memory) ''z'' = None \<and>
   MemoryCache_get sample_memory ''z'' sample_clock = (PNone, sample_memory) \<and>
   map_option expires_at (map_of (cache sample_memory) ''a'') = Some (Some 5000) \<and>
   fst (MemoryCache_get sample_memory ''a'' sample_clock) = PStr ''A'' \<and>
   map_option access_count
     (map_of (cache (snd (MemoryCache_get sample_memory ''a'' sample_clock))) ''a'') = Some 2 \<and>
   map_option last_accessed
     (map_of (cache (snd (MemoryCache_get sample_memory ''a'' sample_clock))) ''a'')
       = Some (Some 101) \<and>
   fst (MemoryCache_get sample_memory ''a'' \<lparr>now_1st = 6000, now_2nd = 6001\<rparr>) = PNone \<and>
   map_of (cache (snd (MemoryCache_get sample_memory ''a'' \<lparr>now_1st = 6000, now_2nd = 6001\<rparr>)))
     ''a'' = None"
proof -
  let ?ea = "\<lparr>key = ''a'', data = PStr ''A'', created_at = 10, expires_at = Some 5000,
              access_count = 1, last_accessed = Some 40\<rparr>"
  have z: "map_of (cache sample_memory) ''z'' = None"
    and a: "map_of (cache sample_memory) ''a'' = Some ?ea"
    by (simp_all add: sample_memory_def)
  have fresh: "\<not> is_expired ?ea (now_1st sample_clock)"
    and stale: "is_expired ?ea (now_1st \<lparr>now_1st = 6000, now_2nd = 6001\<rparr>)"
    by (simp_all add: is_expired_def sample_clock_def)
  note miss = MemoryCache_get_contract [of sample_memory "''z''" sample_clock,
      THEN conjunct1, rule_format, OF z]
  note hit = MemoryCache_get_contract [of sample_memory "''a''" sample_clock,
      THEN conjunct2, THEN conjunct1, rule_format, OF a,
      THEN conjunct2, THEN conjunct2, rule_format, OF fresh]
  note gone = MemoryCache_get_contract [of sample_memory "''a''" "\<lparr>now_1st = 6000, now_2nd = 6001\<rparr>",
      THEN conjunct2, THEN conjunct1, rule_format, OF a,
      THEN conjunct2, THEN conjunct1, rule_format, OF stale]
  show ?thesis
    using z a miss hit gone by (simp add: sample_clock_def)
qed








section \<open>Disk tier: proofs\<close>

lemma handle_errors_reraise_Inr [simp]:
  "handle_errors_reraise (Inr v, self) = (Inr v, self)"
  by (simp add: handle_errors_reraise_def)


























section \<open>Cache manager: proofs\<close>

lemma MemoryCache_get_keys:
  "fst ` set (cache (snd (MemoryCache_get self k clock))) \<subseteq> fst ` set (cache self)"
proof (cases "map_of (cache self) k")
  case None
  then show ?thesis by (simp add: MemoryCache_get_def)
next
  case (Some e)
  then have "k \<in> fst ` set (cache self)"
    by (auto dest!: map_of_SomeD intro: rev_image_eqI)
  then show ?thesis
    using Some dom_delete_subset [of k "cache self"]
    by (auto simp add: MemoryCache_get_def dom_update)
qed

text \<open>
  The readers of the species and generation namespaces never add a key to the memory
  tier: the source has no call of \<open>memory_cache.set\<close> in them.
\<close>

lemma get_memory_or_file_keys:
  "fst ` set (cache (memory_cache (snd (get_memory_or_file lib self k clock env))))
     \<subseteq> fst ` set (cache (memory_cache self))"
proof -
  obtain d m1 where g: "MemoryCache_get (memory_cache self) k clock = (d, m1)"
    by (cases "MemoryCache_get (memory_cache self) k clock")
  have keys: "fst ` set (cache m1) \<subseteq> fst ` set (cache (memory_cache self))"
    using MemoryCache_get_keys [of "memory_cache self" k clock] by (simp add: g)
  have "memory_cache (snd (get_memory_or_file lib self k clock env)) = m1"
    by (simp add: get_memory_or_file_def g split: prod.splits sum.splits)
  with keys show ?thesis by simp
qed

text \<open>The reader of the pokemon namespace promotes a disk hit, with the default TTL.\<close>

lemma get_pokemon_data_promotes:
  assumes "MemoryCache_get (memory_cache self) (pokemon_key i) clock_get = (PNone, m1)"
    and "FileCache_get lib env (file_cache self) (pokemon_key i) = (Inr d, f1)"
    and "d \<noteq> PNone" and "validate_data lib d = Some d'"
  shows "fst (get_pokemon_data lib self i clock_get env clock_set) = Inr d"
    and "map_option data (map_of (cache (memory_cache
           (snd (get_pokemon_data lib self i clock_get env clock_set)))) (pokemon_key i)) = Some d'"
    and "map_option expires_at (map_of (cache (memory_cache
           (snd (get_pokemon_data lib self i clock_get env clock_set)))) (pokemon_key i))
         = Some (Some (now_1st clock_set + hours (default_ttl_hours m1)))"
proof -
  have dflt: "default_ttl_hours (evict_lru m1) = default_ttl_hours m1"
    by (simp add: evict_lru_def Let_def split: list.splits)
  obtain m2 where s: "MemoryCache_set lib m1 (pokemon_key i) d None clock_set = (Inr (), m2)"
    using assms(4) by (simp add: MemoryCache_set_def Let_def)
  then have r: "get_pokemon_data lib self i clock_get env clock_set
      = (Inr d, \<lparr>memory_cache = m2, file_cache = f1\<rparr>)"
    using assms(1,2,3) by (simp add: get_pokemon_data_def Let_def)
  show "fst (get_pokemon_data lib self i clock_get env clock_set) = Inr d"
    by (simp add: r)
  from s assms(4) have "map_option data (map_of (cache m2) (pokemon_key i)) = Some d'"
    and "map_option expires_at (map_of (cache m2) (pokemon_key i))
         = Some (Some (now_1st clock_set + hours (default_ttl_hours m1)))"
    by (auto simp add: MemoryCache_set_def Let_def update_conv' dflt)
  then show "map_option data (map_of (cache (memory_cache
           (snd (get_pokemon_data lib self i clock_get env clock_set)))) (pokemon_key i)) = Some d'"
    and "map_option expires_at (map_of (cache (memory_cache
           (snd (get_pokemon_data lib self i clock_get env clock_set)))) (pokemon_key i))
         = Some (Some (now_1st clock_set + hours (default_ttl_hours m1)))"
    by (simp_all add: r)
qed

text \<open>A miss in both tiers returns \<open>None\<close>, in the three namespaces.\<close>

lemma get_pokemon_data_miss:
  assumes "fst (MemoryCache_get (memory_cache self) (pokemon_key i) clock_get) = PNone"
    and "fst (FileCache_get lib env (file_cache self) (pokemon_key i)) = Inr PNone"
  shows "fst (get_pokemon_data lib self i clock_get env clock_set) = Inr PNone"
  using assms by (auto simp add: get_pokemon_data_def Let_def split: prod.splits sum.splits)

lemma get_memory_or_file_miss:
  assumes "fst (MemoryCache_get (memory_cache self) k clock_get) = PNone"
    and "fst (FileCache_get lib env (file_cache self) k) = Inr PNone"
  shows "fst (get_memory_or_file lib self k clock_get env) = Inr PNone"
  using assms by (auto simp add: get_memory_or_file_def Let_def split: prod.splits sum.splits)

lemma sample_keys:
  "pokemon_key 25 = ''pokemon_25''" "species_key 25 = ''species_25''"
  "generation_key 1 = ''generation_1''"
  by code_simp+

lemma sample_iso_5000: "sample_fromisoformat ''T5000'' = Naive 5000"
  by (simp add: sample_fromisoformat_def is_digit_def)

text \<open>
  Claim C1, on the code. With an empty memory tier and a live entry on disk in each
  namespace, \<open>get_species_data\<close> and \<open>get_generation_data\<close> return the disk value and leave
  the memory tier empty, where \<open>get_pokemon_data\<close> returns the disk value and stores it in
  the memory tier.
\<close>

theorem get_species_data_no_promotion:
  "fst (get_species_data sample_library sample_manager 25 sample_clock (sample_env 100))
     = Inr (PDict [(''color'', PStr ''yellow'')]) \<and>
   cache (memory_cache
     (snd (get_species_data sample_library sample_manager 25 sample_clock (sample_env 100)))) = [] \<and>
   fst (get_generation_data sample_library sample_manager 1 sample_clock (sample_env 100))
     = Inr (PDict [(''count'', PInt 151)]) \<and>
   cache (memory_cache
     (snd (get_generation_data sample_library sample_manager 1 sample_clock (sample_env 100)))) = [] \<and>
   fst (get_pokemon_data sample_library sample_manager 25 sample_clock (sample_env 100) sample_clock)
     = Inr (PDict [(''name'', PStr ''pikachu'')]) \<and>
   map fst (cache (memory_cache
     (snd (get_pokemon_data sample_library sample_manager 25 sample_clock (sample_env 100)
        sample_clock)))) = [''pokemon_25'']"
  by (simp add: get_species_data_def get_generation_data_def get_memory_or_file_def
      get_pokemon_data_def sample_keys sample_manager_def sample_entry_file_def
      MemoryCache_get_def MemoryCache_set_def MemoryCache_init_def
      FileCache_get_def get_try_def get_cache_file_path_def check_expiry_def
      bump_access_count_def write_file_def sample_library_def sample_validate_def
      sample_iso_5000 sample_env_def sample_clock_def Let_def)


end
